theory Spec2Isabelle
  imports Complex_Main
begin

section \<open>The order lifecycle handlers of src/server.js\<close>

text \<open>
  The four handlers modelled here are the routes
  \<^verbatim>\<open>POST /api/orders\<close> (lines 815-893),
  \<^verbatim>\<open>PUT /api/orders/:id/status\<close> (lines 895-919),
  \<^verbatim>\<open>POST /api/orders/:id/cancel\<close> (lines 2380-2395) and
  \<^verbatim>\<open>POST /api/orders/:id/items/:itemId/cancel\<close> (lines 2397-2412).

  Each handler is a function from the database before the request to the HTTP response,
  the database after the request and (where the handler calls \<^verbatim>\<open>io.emit\<close>) the events
  it emitted. One request runs alone: interleavings of concurrent requests are not modelled.
  The columns \<^verbatim>\<open>created_at\<close> and \<^verbatim>\<open>updated_at\<close> are left out.
\<close>

subsection \<open>Rows and the database\<close>

text \<open>
  The type variable \<open>'p\<close> stands for a decimal value as it crosses the interfaces: a price
  in the request body, a \<^verbatim>\<open>DECIMAL(10, 2)\<close> column read back from MySQL.
\<close>

record table_row =
  t_id :: int
  t_table_number :: int
  t_is_active :: bool

record 'p order_row =
  o_id :: int
  o_table_id :: int
  o_table_number :: int
  o_customer_id :: "int option"
  o_total_amount_inr :: 'p
  o_total_amount_usd :: 'p
  o_currency :: string
  o_payment_method :: string
  o_order_status :: string
  o_payment_status :: string

record 'p item_row =
  oi_id :: int
  oi_order_id :: int
  oi_menu_item_id :: int
  oi_item_name :: string
  oi_quantity :: int
  oi_price_inr :: 'p
  oi_price_usd :: 'p
  oi_item_status :: string

record cancellation_row =
  c_id :: int
  c_order_id :: int
  c_item_id :: "int option"
  c_reason :: string
  c_cancelled_by :: "string option"

text \<open>
  The tables are lists of rows in insertion order; the three counters are the
  \<^verbatim>\<open>AUTO_INCREMENT\<close> values of the tables the handlers insert into. Of
  \<^verbatim>\<open>menu_items\<close> only the primary keys matter here: they are the target of the
  foreign key of \<^verbatim>\<open>order_items.menu_item_id\<close> (src/database.sql, line 68).
\<close>

record 'p db =
  restaurant_tables :: "table_row list"
  menu_item_ids :: "int list"
  orders :: "'p order_row list"
  order_items :: "'p item_row list"
  order_cancellations :: "cancellation_row list"
  next_order_id :: int
  next_item_id :: int
  next_cancellation_id :: int

text \<open>Primary keys lie below the counters, and every item row references an order row.\<close>

definition wf_db :: "'p db \<Rightarrow> bool" where
  "wf_db d \<longleftrightarrow>
     (\<forall>r \<in> set (orders d). o_id r < next_order_id d) \<and>
     distinct (map o_id (orders d)) \<and>
     (\<forall>i \<in> set (order_items d). oi_id i < next_item_id d \<and>
        oi_order_id i \<in> o_id ` set (orders d)) \<and>
     distinct (map oi_id (order_items d))"

subsection \<open>Statements that can throw\<close>

text \<open>
  Every \<^verbatim>\<open>await\<close> on the connection or the pool inside a \<^verbatim>\<open>try\<close> block can reject
  (connection loss, constraint violation, missing table or column). The parameter
  \<open>fails :: stmt \<Rightarrow> bool\<close> of a handler says which statement of this request rejects;
  control then passes to the \<^verbatim>\<open>catch\<close> block. \<^verbatim>\<open>rollback\<close> and
  \<^verbatim>\<open>release\<close> are taken to succeed.
\<close>

datatype stmt =
    BeginTransaction
  | SelectTable
  | InsertOrder
  | InsertItem nat
  | SelectItems
  | Commit
  | SelectOrder
  | UpdateStatus
  | SelectUpdated
  | CancelUpdateOrder
  | CancelInsertRecord
  | CancelUpdateItem
  | CancelItemInsertRecord

datatype 'a response =
    Json200 'a
  | Status400
  | Status404
  | Status500

subsection \<open>The arithmetic of JavaScript numbers\<close>

text \<open>
  The totals are computed on JavaScript numbers (IEEE-754 binary64) with
  \<^verbatim>\<open>parseFloat\<close>, \<^verbatim>\<open>*\<close>, \<^verbatim>\<open>+=\<close> and \<^verbatim>\<open>toFixed(2)\<close>. The handler is
  modelled over any number type \<open>'n\<close> with these operations.
\<close>

record ('p, 'n) js_number =
  js_parseFloat :: "'p \<Rightarrow> 'n"
  js_times :: "'n \<Rightarrow> int \<Rightarrow> 'n"
  js_plus :: "'n \<Rightarrow> 'n \<Rightarrow> 'n"
  js_zero :: 'n
  js_toFixed2 :: "'n \<Rightarrow> 'p"

subsection \<open>CreateOrder\<close>

record 'p item =
  item_id :: int
  item_name :: string
  item_quantity :: int
  item_price_inr :: 'p
  item_price_usd :: 'p

text \<open>
  The request body. \<open>None\<close> is a field that is absent (\<^verbatim>\<open>undefined\<close> or
  \<^verbatim>\<open>null\<close>).
\<close>

record 'p order_request =
  req_table_number :: "int option"
  req_items :: "'p item list option"
  req_currency :: string
  req_payment_method :: string
  req_customer_id :: "int option"

text \<open>
  \<^verbatim>\<open>if (!table_number || !items || items.length === 0)\<close>: \<open>None\<close> when the
  condition holds, the table number and the items otherwise. Zero is falsy as a missing
  field is; an empty array is truthy and caught by its length.
\<close>

definition validate_input :: "'p order_request \<Rightarrow> (int \<times> 'p item list) option" where
  "validate_input req =
     (case req_table_number req of
        None \<Rightarrow> None
      | Some n \<Rightarrow>
          if n = 0 then None
          else (case req_items req of
                  None \<Rightarrow> None
                | Some [] \<Rightarrow> None
                | Some (it # its) \<Rightarrow> Some (n, it # its)))"

text \<open>\<^verbatim>\<open>SELECT id FROM restaurant_tables WHERE table_number = ?\<close>\<close>

definition select_table :: "'p db \<Rightarrow> int \<Rightarrow> table_row list" where
  "select_table d n = filter (\<lambda>t. t_table_number t = n) (restaurant_tables d)"

text \<open>
  \<^verbatim>\<open>for (const item of items) { total += parseFloat(item.price) * item.quantity; }\<close>
\<close>

definition total_of :: "('p, 'n) js_number \<Rightarrow> ('p item \<Rightarrow> 'p) \<Rightarrow> 'p item list \<Rightarrow> 'n" where
  "total_of ar price its =
     foldl (\<lambda>total it. js_plus ar total (js_times ar (js_parseFloat ar (price it)) (item_quantity it)))
       (js_zero ar) its"

text \<open>\<^verbatim>\<open>customer_id || null\<close>\<close>

definition or_null :: "int option \<Rightarrow> int option" where
  "or_null c = (case c of None \<Rightarrow> None | Some n \<Rightarrow> if n = 0 then None else Some n)"

text \<open>The row of the \<^verbatim>\<open>INSERT INTO orders\<close> statement, with the id MySQL gives it.\<close>

definition new_order_row ::
  "('p, 'n) js_number \<Rightarrow> 'p db \<Rightarrow> 'p order_request \<Rightarrow> table_row \<Rightarrow> int \<Rightarrow> 'p item list \<Rightarrow> 'p order_row" where
  "new_order_row ar d req t n its =
     \<lparr>o_id = next_order_id d,
      o_table_id = t_id t,
      o_table_number = n,
      o_customer_id = or_null (req_customer_id req),
      o_total_amount_inr = js_toFixed2 ar (total_of ar item_price_inr its),
      o_total_amount_usd = js_toFixed2 ar (total_of ar item_price_usd its),
      o_currency = req_currency req,
      o_payment_method = req_payment_method req,
      o_order_status = ''pending'',
      o_payment_status = (if req_payment_method req = ''cash'' then ''pending'' else ''paid'')\<rparr>"

definition insert_order :: "'p order_row \<Rightarrow> 'p db \<Rightarrow> 'p db" where
  "insert_order r d = d\<lparr>orders := orders d @ [r], next_order_id := next_order_id d + 1\<rparr>"

text \<open>
  The row of one \<^verbatim>\<open>INSERT INTO order_items\<close>; \<^verbatim>\<open>item_status\<close> takes its column
  default.
\<close>

definition new_item_row :: "int \<Rightarrow> int \<Rightarrow> 'p item \<Rightarrow> 'p item_row" where
  "new_item_row iid oid it =
     \<lparr>oi_id = iid,
      oi_order_id = oid,
      oi_menu_item_id = item_id it,
      oi_item_name = item_name it,
      oi_quantity = item_quantity it,
      oi_price_inr = item_price_inr it,
      oi_price_usd = item_price_usd it,
      oi_item_status = ''active''\<rparr>"

definition insert_order_item :: "int \<Rightarrow> 'p item \<Rightarrow> 'p db \<Rightarrow> 'p db" where
  "insert_order_item oid it d =
     d\<lparr>order_items := order_items d @ [new_item_row (next_item_id d) oid it],
       next_item_id := next_item_id d + 1\<rparr>"

text \<open>
  The second loop over the items: statement \<open>InsertItem k\<close> inserts the \<open>k\<close>-th item.
  \<open>None\<close> is a rejected insert; MySQL rejects the row when its menu item does not exist
  (the foreign key of \<^verbatim>\<open>menu_item_id\<close>).
\<close>

fun insert_items :: "(stmt \<Rightarrow> bool) \<Rightarrow> int \<Rightarrow> nat \<Rightarrow> 'p item list \<Rightarrow> 'p db \<Rightarrow> 'p db option" where
  "insert_items fails oid k [] d = Some d"
| "insert_items fails oid k (it # its) d =
     (if fails (InsertItem k) \<or> item_id it \<notin> set (menu_item_ids d) then None
      else insert_items fails oid (Suc k) its (insert_order_item oid it d))"

text \<open>\<^verbatim>\<open>SELECT * FROM order_items WHERE order_id = ?\<close>\<close>

definition select_items :: "'p db \<Rightarrow> int \<Rightarrow> 'p item_row list" where
  "select_items d oid = filter (\<lambda>r. oi_order_id r = oid) (order_items d)"

text \<open>\<^verbatim>\<open>SELECT * FROM orders WHERE id = ?\<close>\<close>

definition select_order :: "'p db \<Rightarrow> int \<Rightarrow> 'p order_row list" where
  "select_order d oid = filter (\<lambda>r. o_id r = oid) (orders d)"

text \<open>\<^verbatim>\<open>rows[0]\<close>, which is \<^verbatim>\<open>undefined\<close> on an empty result.\<close>

definition first_row :: "'a list \<Rightarrow> 'a option" where
  "first_row rows = (case rows of [] \<Rightarrow> None | r # _ \<Rightarrow> Some r)"

text \<open>\<^verbatim>\<open>{ ...orderRows[0], items: itemsRows }\<close>\<close>

record 'p order_data =
  od_order :: "'p order_row option"
  od_items :: "'p item_row list"

datatype 'p event =
    NewOrder "'p order_data"
  | OrderStatusUpdated "'p order_row option"

text \<open>
  The handler. \<open>d\<close> is the database when the transaction begins; a rollback gives it back.
  Statements after \<^verbatim>\<open>commit\<close> see and keep the committed database.
\<close>

definition createOrder ::
  "('p, 'n) js_number \<Rightarrow> (stmt \<Rightarrow> bool) \<Rightarrow> 'p db \<Rightarrow> 'p order_request \<Rightarrow>
     'p order_data response \<times> 'p db \<times> 'p event list" where
  "createOrder ar fails d req =
     (if fails BeginTransaction then (Status500, d, [])
      else
        (case validate_input req of
           None \<Rightarrow> (Status400, d, [])
         | Some (n, its) \<Rightarrow>
             if fails SelectTable then (Status500, d, [])
             else
               (case select_table d n of
                  [] \<Rightarrow> (Status404, d, [])
                | t # _ \<Rightarrow>
                    if fails InsertOrder then (Status500, d, [])
                    else
                      let order_id = next_order_id d;
                          w = insert_order (new_order_row ar d req t n its) d
                      in
                        (case insert_items fails order_id 0 its w of
                           None \<Rightarrow> (Status500, d, [])
                         | Some w' \<Rightarrow>
                             if fails SelectItems then (Status500, d, [])
                             else
                               let itemsRows = select_items w' order_id in
                               if fails Commit then (Status500, d, [])
                               else if fails SelectOrder then (Status500, w', [])
                               else
                                 let orderData =
                                       \<lparr>od_order = first_row (select_order w' order_id),
                                        od_items = itemsRows\<rparr>
                                 in (Json200 orderData, w', [NewOrder orderData])))))"

subsection \<open>UpdateOrderStatus\<close>

text \<open>
  \<^verbatim>\<open>UPDATE orders SET order_status = ? WHERE id = ?\<close>. The pool is created with the
  client's default flags, under which \<^verbatim>\<open>affectedRows\<close> counts the rows the
  \<^verbatim>\<open>WHERE\<close> clause matches, changed or not.
\<close>

definition set_order_status :: "int \<Rightarrow> string \<Rightarrow> 'p db \<Rightarrow> 'p db" where
  "set_order_status oid st d =
     d\<lparr>orders := map (\<lambda>r. if o_id r = oid then r\<lparr>o_order_status := st\<rparr> else r) (orders d)\<rparr>"

definition affectedRows_orders :: "'p db \<Rightarrow> int \<Rightarrow> nat" where
  "affectedRows_orders d oid = length (select_order d oid)"

text \<open>
  The handler runs on the pool, outside a transaction: each statement is committed as it
  completes.
\<close>

definition updateOrderStatus ::
  "(stmt \<Rightarrow> bool) \<Rightarrow> 'p db \<Rightarrow> int \<Rightarrow> string \<Rightarrow>
     'p order_row option response \<times> 'p db \<times> 'p event list" where
  "updateOrderStatus fails d oid order_status =
     (if fails UpdateStatus then (Status500, d, [])
      else
        let d' = set_order_status oid order_status d in
        if affectedRows_orders d oid = 0 then (Status404, d', [])
        else if fails SelectUpdated then (Status500, d', [])
        else
          let updatedOrder = select_order d' oid
          in (Json200 (first_row updatedOrder), d', [OrderStatusUpdated (first_row updatedOrder)]))"

subsection \<open>CancelOrder and CancelOrderItem\<close>

text \<open>
  A field of the request body of the two cancel routes: absent (\<^verbatim>\<open>undefined\<close> after
  destructuring), \<^verbatim>\<open>null\<close>, or a string. The handlers pass \<^verbatim>\<open>reason\<close> and
  \<^verbatim>\<open>cancelled_by\<close> to \<^verbatim>\<open>pool.execute\<close> as they come.
\<close>

datatype json_field = Undefined | JsonNull | JsonString string

text \<open>
  The row of \<^verbatim>\<open>INSERT INTO order_cancellations\<close>, when the statement can be bound and
  the row satisfies the column constraints: \<^verbatim>\<open>execute\<close> throws on a bind parameter that
  is \<^verbatim>\<open>undefined\<close>, \<^verbatim>\<open>reason\<close> is \<^verbatim>\<open>TEXT NOT NULL\<close>, and
  \<^verbatim>\<open>cancelled_by\<close> may be \<^verbatim>\<open>NULL\<close> (src/update-schema-features.js, lines 53-61).
\<close>

definition new_cancellation ::
  "int \<Rightarrow> int \<Rightarrow> int option \<Rightarrow> json_field \<Rightarrow> json_field \<Rightarrow> cancellation_row option" where
  "new_cancellation cid oid iid reason cancelled_by =
     (case reason of
        Undefined \<Rightarrow> None
      | JsonNull \<Rightarrow> None
      | JsonString r \<Rightarrow>
          (case cancelled_by of
             Undefined \<Rightarrow> None
           | JsonNull \<Rightarrow>
               Some \<lparr>c_id = cid, c_order_id = oid, c_item_id = iid, c_reason = r,
                     c_cancelled_by = None\<rparr>
           | JsonString b \<Rightarrow>
               Some \<lparr>c_id = cid, c_order_id = oid, c_item_id = iid, c_reason = r,
                     c_cancelled_by = Some b\<rparr>))"

text \<open>
  \<^verbatim>\<open>INSERT INTO order_cancellations\<close>. The table has a foreign key from
  \<^verbatim>\<open>order_id\<close> to \<^verbatim>\<open>orders(id)\<close> and none on \<^verbatim>\<open>item_id\<close>. \<open>None\<close> is the
  statement that throws: it cannot be bound, \<^verbatim>\<open>reason\<close> is \<^verbatim>\<open>NULL\<close>, or the order
  does not exist.
\<close>

definition insert_cancellation ::
  "int \<Rightarrow> int option \<Rightarrow> json_field \<Rightarrow> json_field \<Rightarrow> 'p db \<Rightarrow> 'p db option" where
  "insert_cancellation oid iid reason cancelled_by d =
     (case new_cancellation (next_cancellation_id d) oid iid reason cancelled_by of
        None \<Rightarrow> None
      | Some row \<Rightarrow>
          if select_order d oid = [] then None
          else Some (d\<lparr>order_cancellations := order_cancellations d @ [row],
                        next_cancellation_id := next_cancellation_id d + 1\<rparr>))"

definition cancelOrder ::
  "(stmt \<Rightarrow> bool) \<Rightarrow> 'p db \<Rightarrow> int \<Rightarrow> json_field \<Rightarrow> json_field \<Rightarrow>
     string response \<times> 'p db" where
  "cancelOrder fails d oid reason cancelled_by =
     (if fails CancelUpdateOrder then (Status500, d)
      else
        let d' = set_order_status oid ''cancelled'' d in
        if fails CancelInsertRecord then (Status500, d')
        else
          (case insert_cancellation oid None reason cancelled_by d' of
             None \<Rightarrow> (Status500, d')
           | Some d'' \<Rightarrow> (Json200 ''Order cancelled successfully'', d'')))"

text \<open>
  \<^verbatim>\<open>UPDATE order_items SET item_status = "cancelled" WHERE id = ? AND order_id = ?\<close>
\<close>

definition cancel_item_rows :: "int \<Rightarrow> int \<Rightarrow> 'p db \<Rightarrow> 'p db" where
  "cancel_item_rows iid oid d =
     d\<lparr>order_items :=
         map (\<lambda>r. if oi_id r = iid \<and> oi_order_id r = oid then r\<lparr>oi_item_status := ''cancelled''\<rparr> else r)
           (order_items d)\<rparr>"

text \<open>The rows that statement matches: its \<^verbatim>\<open>affectedRows\<close>, which the handler does not read.\<close>

definition affectedRows_items :: "'p db \<Rightarrow> int \<Rightarrow> int \<Rightarrow> nat" where
  "affectedRows_items d iid oid =
     length (filter (\<lambda>r. oi_id r = iid \<and> oi_order_id r = oid) (order_items d))"

definition cancelOrderItem ::
  "(stmt \<Rightarrow> bool) \<Rightarrow> 'p db \<Rightarrow> int \<Rightarrow> int \<Rightarrow> json_field \<Rightarrow> json_field \<Rightarrow>
     string response \<times> 'p db" where
  "cancelOrderItem fails d oid iid reason cancelled_by =
     (if fails CancelUpdateItem then (Status500, d)
      else
        let d' = cancel_item_rows iid oid d in
        if fails CancelItemInsertRecord then (Status500, d')
        else
          (case insert_cancellation oid (Some iid) reason cancelled_by d' of
             None \<Rightarrow> (Status500, d')
           | Some d'' \<Rightarrow> (Json200 ''Item cancelled successfully'', d'')))"

subsection \<open>Auxiliary notions for the statements below\<close>

text \<open>The item rows the insert loop writes for \<open>its\<close>, starting at counter \<open>iid\<close>.\<close>

fun item_rows :: "int \<Rightarrow> int \<Rightarrow> 'p item list \<Rightarrow> 'p item_row list" where
  "item_rows iid oid [] = []"
| "item_rows iid oid (it # its) = new_item_row iid oid it # item_rows (iid + 1) oid its"

text \<open>
  An instance of the number operations on which the model can be run: amounts as whole
  numbers of minor units (paise, cents), where the arithmetic is exact.
\<close>

definition minor_units :: "(int, int) js_number" where
  "minor_units =
     \<lparr>js_parseFloat = (\<lambda>p. p), js_times = (\<lambda>x q. x * q), js_plus = (\<lambda>x y. x + y),
      js_zero = 0, js_toFixed2 = (\<lambda>x. x)\<rparr>"

text \<open>
  Some insert of the loop is rejected: statement \<open>InsertItem j\<close> fails or the \<open>j\<close>-th item
  names a menu item that does not exist. The items are numbered from \<open>k\<close>.
\<close>

definition rejected_insert :: "(stmt \<Rightarrow> bool) \<Rightarrow> 'p db \<Rightarrow> nat \<Rightarrow> 'p item list \<Rightarrow> bool" where
  "rejected_insert fails d k its \<longleftrightarrow>
     (\<exists>(j, it) \<in> set (enumerate k its). fails (InsertItem j) \<or> item_id it \<notin> set (menu_item_ids d))"

text \<open>
  The transaction does not reach a successful \<^verbatim>\<open>commit\<close>: it cannot begin, the input is
  refused, the table is missing, or a statement up to and including \<^verbatim>\<open>commit\<close> fails.
\<close>

definition tx_aborted :: "(stmt \<Rightarrow> bool) \<Rightarrow> 'p db \<Rightarrow> 'p order_request \<Rightarrow> bool" where
  "tx_aborted fails d req \<longleftrightarrow>
     fails BeginTransaction \<or>
     (case validate_input req of
        None \<Rightarrow> True
      | Some (n, its) \<Rightarrow>
          fails SelectTable \<or> select_table d n = [] \<or> fails InsertOrder \<or>
          rejected_insert fails d 0 its \<or> fails SelectItems \<or> fails Commit)"

text \<open>
  The database \<open>d'\<close> holds, beyond the rows of \<open>d\<close>, the order row of the request and one
  item row for each submitted item, in the order of submission.
\<close>

definition order_committed ::
  "('p, 'n) js_number \<Rightarrow> 'p db \<Rightarrow> 'p order_request \<Rightarrow> 'p db \<Rightarrow> bool" where
  "order_committed ar d req d' \<longleftrightarrow>
     (case validate_input req of
        None \<Rightarrow> False
      | Some (n, its) \<Rightarrow>
          (case select_table d n of
             [] \<Rightarrow> False
           | t # _ \<Rightarrow>
               orders d' = orders d @ [new_order_row ar d req t n its] \<and>
               order_items d' = order_items d @ item_rows (next_item_id d) (next_order_id d) its))"

subsection \<open>JavaScript numbers as binary64\<close>

text \<open>
  The instance of the number operations that the handler runs on. A finite double is the
  rational number it denotes (the two zeros are not told apart, which no operation below
  can observe in its result); \<open>NonFinite\<close> stands for \<^verbatim>\<open>NaN\<close>, \<^verbatim>\<open>Infinity\<close> and
  \<^verbatim>\<open>-Infinity\<close>, which sums and products never leave.
\<close>

datatype double = Finite rat | NonFinite

text \<open>The number of binary digits of a positive integer.\<close>

function bit_length :: "int \<Rightarrow> nat" where
  "bit_length n = (if n \<le> 0 then 0 else Suc (bit_length (n div 2)))"
  by pat_completeness auto
termination
  by (relation "measure nat") auto

definition pow2 :: "int \<Rightarrow> rat" where
  "pow2 k = (if 0 \<le> k then 2 ^ nat k else 1 / 2 ^ nat (- k))"

text \<open>For \<open>x > 0\<close>, the \<open>k\<close> with \<open>2 ^ k \<le> x < 2 ^ (k + 1)\<close>.\<close>

definition floor_log2 :: "rat \<Rightarrow> int" where
  "floor_log2 x =
     (let (a, b) = quotient_of x;
          k = int (bit_length a) - int (bit_length b)
      in if pow2 k \<le> x then k else k - 1)"

text \<open>The nearest integer, the even one of two that are equally near.\<close>

definition round_half_even :: "rat \<Rightarrow> int" where
  "round_half_even x =
     (let n = \<lfloor>x\<rfloor>; r = x - of_int n
      in if r < 1 / 2 then n else if 1 / 2 < r then n + 1 else if even n then n else n + 1)"

text \<open>
  Rounding to nearest, ties to even, as IEEE 754 defines it for binary64: 53 significant
  bits, the spacing of the subnormal numbers \<open>2 ^ - 1074\<close> as the finest, and a result of
  magnitude \<open>2 ^ 1024\<close> or more replaced by an infinity. Every arithmetic operation and every
  conversion of a decimal numeral returns the rounding of the exact result.
\<close>

definition round64 :: "rat \<Rightarrow> double" where
  "round64 x =
     (if x = 0 then Finite 0
      else
        let e = max (floor_log2 \<bar>x\<bar> - 52) (- 1074);
            y = of_int (round_half_even (\<bar>x\<bar> / pow2 e)) * pow2 e
        in if 1024 \<le> floor_log2 y then NonFinite else Finite (sgn x * y))"

text \<open>
  A price as it arrives and a total as it is stored, by the number the text denotes:
  \<open>Decimal r\<close> is a decimal numeral of value \<open>r\<close> (a JSON number or a numeric string in the
  request, the digits \<^verbatim>\<open>toFixed\<close> prints), \<open>Exponential x\<close> is the text that
  \<^verbatim>\<open>String\<close> gives for a double \<open>x\<close> of magnitude \<open>10 ^ 21\<close> or more, which reads back
  as \<open>x\<close>, and \<open>NotANumber\<close> is any text that denotes no finite number.
\<close>

datatype decimal_text = Decimal rat | Exponential rat | NotANumber

definition double_parseFloat :: "decimal_text \<Rightarrow> double" where
  "double_parseFloat p =
     (case p of Decimal r \<Rightarrow> round64 r | Exponential x \<Rightarrow> round64 x | NotANumber \<Rightarrow> NonFinite)"

text \<open>
  \<^verbatim>\<open>parseFloat(item.price) * item.quantity\<close>: the quantity is a number of the parsed
  body, that is the double nearest to the integer sent.
\<close>

definition double_times :: "double \<Rightarrow> int \<Rightarrow> double" where
  "double_times a q =
     (case (a, round64 (of_int q)) of
        (Finite x, Finite y) \<Rightarrow> round64 (x * y)
      | _ \<Rightarrow> NonFinite)"

definition double_plus :: "double \<Rightarrow> double \<Rightarrow> double" where
  "double_plus a b =
     (case (a, b) of
        (Finite x, Finite y) \<Rightarrow> round64 (x + y)
      | _ \<Rightarrow> NonFinite)"

text \<open>
  \<^verbatim>\<open>Number.prototype.toFixed(2)\<close>: the text of a non-finite number is not a numeral; a
  magnitude of \<open>10 ^ 21\<close> or more is printed as \<^verbatim>\<open>String\<close> prints it; otherwise the
  digits are those of the integer \<open>n\<close> for which \<open>n / 100\<close> is nearest to the magnitude, the
  larger of two that are equally near, with the sign in front.
\<close>

definition double_toFixed2 :: "double \<Rightarrow> decimal_text" where
  "double_toFixed2 a =
     (case a of
        NonFinite \<Rightarrow> NotANumber
      | Finite x \<Rightarrow>
          if 10 ^ 21 \<le> \<bar>x\<bar> then Exponential x
          else Decimal (sgn x * of_int \<lfloor>\<bar>x\<bar> * 100 + 1 / 2\<rfloor> / 100))"

definition binary64 :: "(decimal_text, double) js_number" where
  "binary64 =
     \<lparr>js_parseFloat = double_parseFloat, js_times = double_times, js_plus = double_plus,
      js_zero = Finite 0, js_toFixed2 = double_toFixed2\<rparr>"



text \<open>The columns of an order row that identify it and carry its totals.\<close>

definition order_totals :: "'p order_row \<Rightarrow> int \<times> 'p \<times> 'p" where
  "order_totals r = (o_id r, o_total_amount_inr r, o_total_amount_usd r)"

subsection \<open>Example data\<close>

text \<open>
  Table 3 is active and table 4 is not; amounts are in minor units. \<open>no_failure\<close> is a
  request during which no statement fails, \<open>failure_at s\<close> one during which \<open>s\<close> does.
\<close>

definition example_db :: "int db" where
  "example_db =
     \<lparr>restaurant_tables =
        [\<lparr>t_id = 7, t_table_number = 3, t_is_active = True\<rparr>,
         \<lparr>t_id = 8, t_table_number = 4, t_is_active = False\<rparr>],
      menu_item_ids = [1, 2],
      orders = [], order_items = [], order_cancellations = [],
      next_order_id = 1, next_item_id = 1, next_cancellation_id = 1\<rparr>"

definition pizza :: "int item" where
  "pizza = \<lparr>item_id = 1, item_name = ''Margherita Pizza'', item_quantity = 2,
             item_price_inr = 29900, item_price_usd = 399\<rparr>"

definition soda :: "int item" where
  "soda = \<lparr>item_id = 2, item_name = ''Soda'', item_quantity = 1,
            item_price_inr = 4000, item_price_usd = 50\<rparr>"

definition example_request :: "int order_request" where
  "example_request =
     \<lparr>req_table_number = Some 3, req_items = Some [pizza, soda],
      req_currency = ''INR'', req_payment_method = ''cash'', req_customer_id = None\<rparr>"

definition no_failure :: "stmt \<Rightarrow> bool" where
  "no_failure s = False"

definition failure_at :: "stmt \<Rightarrow> stmt \<Rightarrow> bool" where
  "failure_at s0 s \<longleftrightarrow> s = s0"

text \<open>
  Variants of the request, the rows the example request creates, and a database with a
  second order (on table 4) whose only item is item 3.
\<close>

definition inactive_table_request :: "int order_request" where
  "inactive_table_request = example_request\<lparr>req_table_number := Some 4\<rparr>"

definition unknown_table_request :: "int order_request" where
  "unknown_table_request = example_request\<lparr>req_table_number := Some 999\<rparr>"

definition zero_quantity_request :: "int order_request" where
  "zero_quantity_request = example_request\<lparr>req_items := Some [pizza\<lparr>item_quantity := 0\<rparr>]\<rparr>"

definition empty_items_request :: "int order_request" where
  "empty_items_request = example_request\<lparr>req_items := Some []\<rparr>"

definition card_request :: "int order_request" where
  "card_request = example_request\<lparr>req_payment_method := ''card''\<rparr>"

definition example_order_row :: "int order_row" where
  "example_order_row =
     \<lparr>o_id = 1, o_table_id = 7, o_table_number = 3, o_customer_id = None,
      o_total_amount_inr = 63800, o_total_amount_usd = 848,
      o_currency = ''INR'', o_payment_method = ''cash'',
      o_order_status = ''pending'', o_payment_status = ''pending''\<rparr>"

definition example_item_rows :: "int item_row list" where
  "example_item_rows =
     [\<lparr>oi_id = 1, oi_order_id = 1, oi_menu_item_id = 1, oi_item_name = ''Margherita Pizza'',
       oi_quantity = 2, oi_price_inr = 29900, oi_price_usd = 399, oi_item_status = ''active''\<rparr>,
      \<lparr>oi_id = 2, oi_order_id = 1, oi_menu_item_id = 2, oi_item_name = ''Soda'',
       oi_quantity = 1, oi_price_inr = 4000, oi_price_usd = 50, oi_item_status = ''active''\<rparr>]"

definition example_order_data :: "int order_data" where
  "example_order_data = \<lparr>od_order = Some example_order_row, od_items = example_item_rows\<rparr>"

definition example_db_after :: "int db" where
  "example_db_after =
     example_db\<lparr>orders := [example_order_row], order_items := example_item_rows,
                next_order_id := 2, next_item_id := 3\<rparr>"

definition two_orders_db :: "int db" where
  "two_orders_db =
     example_db_after
       \<lparr>orders := [example_order_row, example_order_row\<lparr>o_id := 2, o_table_id := 8, o_table_number := 4\<rparr>],
        order_items := example_item_rows @
          [\<lparr>oi_id = 3, oi_order_id = 2, oi_menu_item_id = 2, oi_item_name = ''Soda'',
            oi_quantity = 4, oi_price_inr = 4000, oi_price_usd = 50, oi_item_status = ''active''\<rparr>],
        next_order_id := 3, next_item_id := 4\<rparr>"





section \<open>Properties\<close>

subsection \<open>The insert loop and the shape of CreateOrder\<close>

lemma insert_items_Some:
  "insert_items fails oid k its d = Some d' \<Longrightarrow>
     orders d' = orders d \<and> restaurant_tables d' = restaurant_tables d \<and>
     menu_item_ids d' = menu_item_ids d \<and>
     order_cancellations d' = order_cancellations d \<and>
     next_order_id d' = next_order_id d \<and>
     next_cancellation_id d' = next_cancellation_id d \<and>
     next_item_id d' = next_item_id d + int (length its) \<and>
     order_items d' = order_items d @ item_rows (next_item_id d) oid its"
proof (induction its arbitrary: k d)
  case Nil
  then show ?case by simp
next
  case (Cons it its)
  from Cons.prems have "insert_items fails oid (Suc k) its (insert_order_item oid it d) = Some d'"
    by (simp split: if_splits)
  from Cons.IH [OF this] show ?case
    by (simp add: insert_order_item_def)
qed

lemma insert_items_None_iff:
  "insert_items fails oid k its d = None \<longleftrightarrow> rejected_insert fails d k its"
proof (induction its arbitrary: k d)
  case Nil
  then show ?case by (simp add: rejected_insert_def)
next
  case (Cons it its)
  have m: "menu_item_ids (insert_order_item oid it d) = menu_item_ids d"
    by (simp add: insert_order_item_def)
  have "rejected_insert fails (insert_order_item oid it d) (Suc k) its = rejected_insert fails d (Suc k) its"
    by (simp add: rejected_insert_def m)
  with Cons.IH [of "Suc k" "insert_order_item oid it d"] show ?case
    by (auto simp: rejected_insert_def)
qed

lemma insert_items_after_order:
  "insert_items fails oid k its (insert_order r d) = None \<longleftrightarrow> rejected_insert fails d k its"
  by (simp add: insert_items_None_iff rejected_insert_def insert_order_def)

lemma createOrder_aborted:
  assumes "tx_aborted fails d req"
  shows "\<exists>res. createOrder ar fails d req = (res, d, []) \<and> res \<in> {Status400, Status404, Status500}"
proof (cases "fails BeginTransaction")
  case True
  then show ?thesis by (simp add: createOrder_def)
next
  case nb: False
  show ?thesis
  proof (cases "validate_input req")
    case None
    with nb show ?thesis by (simp add: createOrder_def)
  next
    case (Some v)
    obtain n its where v: "v = (n, its)" by (cases v)
    show ?thesis
    proof (cases "select_table d n")
      case Nil
      with nb Some v show ?thesis by (simp add: createOrder_def)
    next
      case (Cons t ts)
      from assms nb Some v Cons
      have "fails SelectTable \<or> fails InsertOrder \<or>
            insert_items fails (next_order_id d) 0 its (insert_order (new_order_row ar d req t n its) d) = None \<or>
            fails SelectItems \<or> fails Commit"
        by (simp add: tx_aborted_def insert_items_after_order)
      with nb Some v Cons show ?thesis
        by (auto simp: createOrder_def Let_def split: option.splits)
    qed
  qed
qed

lemma createOrder_not_aborted:
  assumes "\<not> tx_aborted fails d req"
  shows "\<exists>n its t ts w'. validate_input req = Some (n, its) \<and> select_table d n = t # ts \<and>
     insert_items fails (next_order_id d) 0 its (insert_order (new_order_row ar d req t n its) d) = Some w' \<and>
     createOrder ar fails d req =
       (if fails SelectOrder then (Status500, w', [])
        else (Json200 \<lparr>od_order = first_row (select_order w' (next_order_id d)),
                        od_items = select_items w' (next_order_id d)\<rparr>, w',
              [NewOrder \<lparr>od_order = first_row (select_order w' (next_order_id d)),
                        od_items = select_items w' (next_order_id d)\<rparr>]))"
proof -
  from assms obtain n its where v: "validate_input req = Some (n, its)"
    by (auto simp: tx_aborted_def split: option.splits)
  with assms obtain t ts where t: "select_table d n = t # ts"
    by (auto simp: tx_aborted_def neq_Nil_conv)
  from assms v have nr: "\<not> rejected_insert fails d 0 its" by (simp add: tx_aborted_def)
  then obtain w' where w: "insert_items fails (next_order_id d) 0 its (insert_order (new_order_row ar d req t n its) d) = Some w'"
    using insert_items_after_order [of fails "next_order_id d" 0 its "new_order_row ar d req t n its" d]
    by (cases "insert_items fails (next_order_id d) 0 its (insert_order (new_order_row ar d req t n its) d)") auto
  from assms v t w show ?thesis
    by (simp add: createOrder_def tx_aborted_def Let_def)
qed

lemma filter_item_rows:
  "filter (\<lambda>r. oi_order_id r = oid) (item_rows iid oid its) = item_rows iid oid its"
  by (induction its arbitrary: iid) (simp_all add: new_item_row_def)

lemma length_item_rows: "length (item_rows iid oid its) = length its"
  by (induction its arbitrary: iid) simp_all

lemma createOrder_order_committed:
  assumes "\<not> tx_aborted fails d req" and "createOrder ar fails d req = (res, d', evs)"
  shows "order_committed ar d req d'"
proof -
  from createOrder_not_aborted [OF assms(1), of ar] obtain n its t ts w' where
    v: "validate_input req = Some (n, its)" and t: "select_table d n = t # ts" and
    w: "insert_items fails (next_order_id d) 0 its (insert_order (new_order_row ar d req t n its) d) = Some w'" and
    c: "createOrder ar fails d req =
       (if fails SelectOrder then (Status500, w', [])
        else (Json200 \<lparr>od_order = first_row (select_order w' (next_order_id d)),
                        od_items = select_items w' (next_order_id d)\<rparr>, w',
              [NewOrder \<lparr>od_order = first_row (select_order w' (next_order_id d)),
                        od_items = select_items w' (next_order_id d)\<rparr>]))"
    by blast
  from c assms(2) have "d' = w'" by (simp split: if_splits)
  with insert_items_Some [OF w] v t show ?thesis
    by (simp add: order_committed_def insert_order_def)
qed

lemma order_committedD:
  assumes "order_committed ar d req d'"
  shows "\<exists>n its t ts. validate_input req = Some (n, its) \<and> select_table d n = t # ts \<and>
           orders d' = orders d @ [new_order_row ar d req t n its] \<and>
           order_items d' = order_items d @ item_rows (next_item_id d) (next_order_id d) its"
proof (cases "validate_input req")
  case None
  with assms show ?thesis by (simp add: order_committed_def)
next
  case (Some v)
  obtain n its where v: "v = (n, its)" by (cases v)
  show ?thesis
  proof (cases "select_table d n")
    case Nil
    with assms Some v show ?thesis by (simp add: order_committed_def)
  next
    case (Cons t ts)
    with assms Some v show ?thesis by (simp add: order_committed_def)
  qed
qed

lemma read_back:
  assumes "wf_db d" and "order_committed ar d req d'"
  shows "\<exists>n its t ts. validate_input req = Some (n, its) \<and> select_table d n = t # ts \<and>
           select_order d' (next_order_id d) = [new_order_row ar d req t n its] \<and>
           select_items d' (next_order_id d) = item_rows (next_item_id d) (next_order_id d) its"
proof -
  from order_committedD [OF assms(2)] obtain n its t ts where
    v: "validate_input req = Some (n, its)" and t: "select_table d n = t # ts" and
    o: "orders d' = orders d @ [new_order_row ar d req t n its]" and
    i: "order_items d' = order_items d @ item_rows (next_item_id d) (next_order_id d) its"
    by blast
  from assms(1) have "filter (\<lambda>r. o_id r = next_order_id d) (orders d) = []"
    by (auto simp: wf_db_def filter_empty_conv)
  with o have 1: "select_order d' (next_order_id d) = [new_order_row ar d req t n its]"
    by (simp add: select_order_def new_order_row_def)
  from assms(1) have "filter (\<lambda>r. oi_order_id r = next_order_id d) (order_items d) = []"
    by (fastforce simp: wf_db_def filter_empty_conv)
  with i have 2: "select_items d' (next_order_id d) = item_rows (next_item_id d) (next_order_id d) its"
    by (simp add: select_items_def filter_item_rows)
  from v t 1 2 show ?thesis by blast
qed

subsection \<open>CreateOrder keeps the keys unique\<close>

lemma item_rows_ids:
  "r \<in> set (item_rows iid oid its) \<Longrightarrow>
     iid \<le> oi_id r \<and> oi_id r < iid + int (length its) \<and> oi_order_id r = oid"
proof (induction its arbitrary: iid)
  case Nil
  then show ?case by simp
next
  case (Cons it its)
  from Cons.prems have "r = new_item_row iid oid it \<or> r \<in> set (item_rows (iid + 1) oid its)"
    by simp
  then show ?case
  proof
    assume "r = new_item_row iid oid it"
    then show ?thesis by (simp add: new_item_row_def)
  next
    assume "r \<in> set (item_rows (iid + 1) oid its)"
    from Cons.IH [OF this] show ?thesis by simp
  qed
qed

lemma distinct_item_rows: "distinct (map oi_id (item_rows iid oid its))"
proof (induction its arbitrary: iid)
  case Nil
  then show ?case by simp
next
  case (Cons it its)
  have "oi_id (new_item_row iid oid it) \<notin> oi_id ` set (item_rows (iid + 1) oid its)"
  proof
    assume "oi_id (new_item_row iid oid it) \<in> oi_id ` set (item_rows (iid + 1) oid its)"
    then obtain r where "r \<in> set (item_rows (iid + 1) oid its)" "oi_id r = iid"
      by (auto simp: new_item_row_def)
    with item_rows_ids [of r "iid + 1" oid its] show False by simp
  qed
  with Cons.IH [of "iid + 1"] show ?case by simp
qed

lemma createOrder_result_db:
  assumes "createOrder ar fails d req = (res, d', evs)"
  shows "d' = d \<or>
         (order_committed ar d req d' \<and> next_order_id d' = next_order_id d + 1 \<and>
          (\<exists>its. order_items d' = order_items d @ item_rows (next_item_id d) (next_order_id d) its \<and>
                 next_item_id d' = next_item_id d + int (length its)))"
proof (cases "tx_aborted fails d req")
  case True
  from createOrder_aborted [OF True, of ar] assms show ?thesis by auto
next
  case False
  from createOrder_not_aborted [OF False, of ar] obtain n its t ts w' where
    w: "insert_items fails (next_order_id d) 0 its (insert_order (new_order_row ar d req t n its) d) = Some w'" and
    c: "createOrder ar fails d req =
       (if fails SelectOrder then (Status500, w', [])
        else (Json200 \<lparr>od_order = first_row (select_order w' (next_order_id d)),
                        od_items = select_items w' (next_order_id d)\<rparr>, w',
              [NewOrder \<lparr>od_order = first_row (select_order w' (next_order_id d)),
                        od_items = select_items w' (next_order_id d)\<rparr>]))"
    by blast
  from c assms have e: "d' = w'" by (simp split: if_splits)
  from insert_items_Some [OF w] e have
    "next_order_id d' = next_order_id d + 1"
    "order_items d' = order_items d @ item_rows (next_item_id d) (next_order_id d) its"
    "next_item_id d' = next_item_id d + int (length its)"
    by (simp_all add: insert_order_def)
  with createOrder_order_committed [OF False assms] show ?thesis by blast
qed

lemma createOrder_wf:
  assumes "wf_db d" and "createOrder ar fails d req = (res, d', evs)"
  shows "wf_db d'"
proof -
  from createOrder_result_db [OF assms(2)] show ?thesis
  proof
    assume "d' = d"
    with assms(1) show ?thesis by simp
  next
    assume a: "order_committed ar d req d' \<and> next_order_id d' = next_order_id d + 1 \<and>
          (\<exists>its. order_items d' = order_items d @ item_rows (next_item_id d) (next_order_id d) its \<and>
                 next_item_id d' = next_item_id d + int (length its))"
    then obtain its where
      n: "next_order_id d' = next_order_id d + 1" and
      i: "order_items d' = order_items d @ item_rows (next_item_id d) (next_order_id d) its" and
      ni: "next_item_id d' = next_item_id d + int (length its)"
      by blast
    from a order_committedD [of ar d req d'] obtain row where
      o: "orders d' = orders d @ [row]" and id: "o_id row = next_order_id d"
      by (auto simp: new_order_row_def)
    from assms(1) have w1: "\<forall>r \<in> set (orders d). o_id r < next_order_id d"
      and w2: "distinct (map o_id (orders d))"
      and w3: "\<forall>r \<in> set (order_items d). oi_id r < next_item_id d \<and> oi_order_id r \<in> o_id ` set (orders d)"
      and w4: "distinct (map oi_id (order_items d))"
      by (simp_all add: wf_db_def)
    have 1: "\<forall>r \<in> set (orders d'). o_id r < next_order_id d'"
      using w1 o id n by auto
    have 2: "distinct (map o_id (orders d'))"
      using w1 w2 o id by auto
    have 3: "\<forall>r \<in> set (order_items d'). oi_id r < next_item_id d' \<and> oi_order_id r \<in> o_id ` set (orders d')"
    proof
      fix r assume "r \<in> set (order_items d')"
      with i have "r \<in> set (order_items d) \<or> r \<in> set (item_rows (next_item_id d) (next_order_id d) its)"
        by simp
      then show "oi_id r < next_item_id d' \<and> oi_order_id r \<in> o_id ` set (orders d')"
      proof
        assume "r \<in> set (order_items d)"
        with w3 ni o show ?thesis by auto
      next
        assume "r \<in> set (item_rows (next_item_id d) (next_order_id d) its)"
        from item_rows_ids [OF this] ni o id show ?thesis by auto
      qed
    qed
    have 4: "distinct (map oi_id (order_items d'))"
    proof -
      have "oi_id ` set (order_items d) \<inter> oi_id ` set (item_rows (next_item_id d) (next_order_id d) its) = {}"
      proof (rule ccontr)
        assume "\<not> ?thesis"
        then obtain a b where "a \<in> set (order_items d)"
          "b \<in> set (item_rows (next_item_id d) (next_order_id d) its)" "oi_id a = oi_id b"
          by auto
        with w3 item_rows_ids [of b "next_item_id d" "next_order_id d" its] show False by auto
      qed
      with w4 distinct_item_rows [of "next_item_id d" "next_order_id d" its] i show ?thesis
        by simp
    qed
    from 1 2 3 4 show ?thesis by (simp add: wf_db_def)
  qed
qed

subsection \<open>CreateOrder writes all rows or none\<close>

text \<open>
  Claim C1, as stated, fails: not every failure after the transaction begins leaves no
  rows behind. The order row is read back after \<^verbatim>\<open>commit\<close>, inside the same
  \<^verbatim>\<open>try\<close>; when that read fails, the \<^verbatim>\<open>rollback\<close> of the \<^verbatim>\<open>catch\<close> block
  finds nothing to undo, and the request is answered with 500 while the order and its two
  items are stored.
\<close>

theorem createOrder_failure_after_commit_counterexample:
  "createOrder minor_units (failure_at SelectOrder) example_db example_request =
     (Status500, example_db_after, []) \<and>
   orders example_db_after = [example_order_row] \<and>
   order_items example_db_after = example_item_rows"
  by code_simp

text \<open>
  Claim C1, amended. For every CreateOrder request the order row and its item rows are
  persisted all-or-nothing. If the transaction is aborted (it cannot begin, input validation
  fails, the table is missing, or any statement up to and including the commit fails) the
  tables \<open>orders\<close> and \<open>order_items\<close> are as before and the response is an error. If it is
  not aborted, and in particular whenever the response is a success, the new order row and
  one row per submitted item are in the database together.
\<close>

theorem createOrder_all_or_nothing:
  assumes "createOrder ar fails d req = (res, d', evs)"
  shows "(tx_aborted fails d req \<longrightarrow>
            orders d' = orders d \<and> order_items d' = order_items d \<and>
            res \<in> {Status400, Status404, Status500}) \<and>
         (\<not> tx_aborted fails d req \<longrightarrow> order_committed ar d req d') \<and>
         ((\<exists>data. res = Json200 data) \<longrightarrow> order_committed ar d req d')"
proof -
  have a: "orders d' = orders d \<and> order_items d' = order_items d \<and>
           res \<in> {Status400, Status404, Status500}" if "tx_aborted fails d req"
    using createOrder_aborted [OF that, of ar] assms by auto
  have b: "order_committed ar d req d'" if "\<not> tx_aborted fails d req"
    using createOrder_order_committed [OF that assms] .
  from a b show ?thesis by auto
qed

theorem createOrder_all_or_nothing_witness:
  "\<not> tx_aborted no_failure example_db example_request \<and>
   order_committed minor_units example_db example_request
     (fst (snd (createOrder minor_units no_failure example_db example_request))) \<and>
   tx_aborted (failure_at (InsertItem 1)) example_db example_request \<and>
   orders (fst (snd (createOrder minor_units (failure_at (InsertItem 1)) example_db example_request))) = [] \<and>
   order_items (fst (snd (createOrder minor_units (failure_at (InsertItem 1)) example_db example_request))) = []"
proof -
  let ?X = "createOrder minor_units no_failure example_db example_request"
  let ?Y = "createOrder minor_units (failure_at (InsertItem 1)) example_db example_request"
  have x: "?X = (fst ?X, fst (snd ?X), snd (snd ?X))" by simp
  have y: "?Y = (fst ?Y, fst (snd ?Y), snd (snd ?Y))" by simp
  have nx: "\<not> tx_aborted no_failure example_db example_request" by code_simp
  have ay: "tx_aborted (failure_at (InsertItem 1)) example_db example_request" by code_simp
  have e: "orders example_db = [] \<and> order_items example_db = []" by (simp add: example_db_def)
  from createOrder_all_or_nothing [OF x] nx
  have 1: "order_committed minor_units example_db example_request (fst (snd ?X))" by blast
  from createOrder_all_or_nothing [OF y] ay e
  have 2: "orders (fst (snd ?Y)) = [] \<and> order_items (fst (snd ?Y)) = []" by simp
  from nx 1 ay 2 show ?thesis by blast
qed

subsection \<open>Facts about the example data\<close>

lemma createOrder_example:
  "createOrder minor_units no_failure example_db example_request =
     (Json200 example_order_data, example_db_after, [NewOrder example_order_data])"
  by code_simp

lemma wf_example_db: "wf_db example_db"
  by code_simp

lemma wf_two_orders_db: "wf_db two_orders_db"
  by code_simp

subsection \<open>The response of CreateOrder\<close>

lemma createOrder_Json200:
  assumes "createOrder ar fails d req = (Json200 data, d', evs)"
  shows "\<not> tx_aborted fails d req \<and> \<not> fails SelectOrder \<and> order_committed ar d req d' \<and>
         data = \<lparr>od_order = first_row (select_order d' (next_order_id d)),
                 od_items = select_items d' (next_order_id d)\<rparr> \<and>
         evs = [NewOrder data]"
proof -
  have na: "\<not> tx_aborted fails d req"
  proof
    assume "tx_aborted fails d req"
    from createOrder_aborted [OF this, of ar] assms show False by auto
  qed
  from createOrder_not_aborted [OF na, of ar] obtain w' where
    c: "createOrder ar fails d req =
       (if fails SelectOrder then (Status500, w', [])
        else (Json200 \<lparr>od_order = first_row (select_order w' (next_order_id d)),
                        od_items = select_items w' (next_order_id d)\<rparr>, w',
              [NewOrder \<lparr>od_order = first_row (select_order w' (next_order_id d)),
                        od_items = select_items w' (next_order_id d)\<rparr>]))"
    by blast
  from c assms have "\<not> fails SelectOrder" by (auto split: if_splits)
  with c assms na createOrder_order_committed [OF na assms] show ?thesis by simp
qed

lemma createOrder_no_event:
  assumes "createOrder ar fails d req = (res, d', evs)" and "\<forall>data. res \<noteq> Json200 data"
  shows "evs = []"
proof (cases "tx_aborted fails d req")
  case True
  from createOrder_aborted [OF True, of ar] assms show ?thesis by auto
next
  case False
  from createOrder_not_aborted [OF False, of ar] assms show ?thesis
    by (auto split: if_splits)
qed

text \<open>
  Claim C8. For every successful CreateOrder, the order row that is persisted and returned
  has \<^verbatim>\<open>order_status\<close> \<^verbatim>\<open>pending\<close>; its \<^verbatim>\<open>payment_status\<close> is
  \<^verbatim>\<open>pending\<close> exactly when the payment method is \<^verbatim>\<open>cash\<close>, and \<^verbatim>\<open>paid\<close> for
  every other payment method.
\<close>

theorem createOrder_initial_status:
  assumes "wf_db d" and "createOrder ar fails d req = (Json200 data, d', evs)"
  shows "\<exists>r. od_order data = Some r \<and> select_order d' (o_id r) = [r] \<and>
           o_order_status r = ''pending'' \<and>
           (o_payment_status r = ''pending'' \<longleftrightarrow> req_payment_method req = ''cash'') \<and>
           (req_payment_method req \<noteq> ''cash'' \<longrightarrow> o_payment_status r = ''paid'')"
proof -
  from createOrder_Json200 [OF assms(2)] have
    c: "order_committed ar d req d'" and
    dt: "data = \<lparr>od_order = first_row (select_order d' (next_order_id d)),
                 od_items = select_items d' (next_order_id d)\<rparr>"
    by simp_all
  from read_back [OF assms(1) c] obtain n its t where
    r: "select_order d' (next_order_id d) = [new_order_row ar d req t n its]"
    by blast
  from dt r show ?thesis
    by (simp add: first_row_def new_order_row_def)
qed

theorem createOrder_initial_status_witness:
  "wf_db example_db \<and>
   createOrder minor_units no_failure example_db example_request =
     (Json200 example_order_data, example_db_after, [NewOrder example_order_data]) \<and>
   od_order example_order_data = Some example_order_row \<and>
   select_order example_db_after 1 = [example_order_row] \<and>
   req_payment_method example_request = ''cash'' \<and>
   o_order_status example_order_row = ''pending'' \<and>
   o_payment_status example_order_row = ''pending'' \<and>
   req_payment_method card_request \<noteq> ''cash'' \<and>
   map_option o_payment_status
     (od_order (case fst (createOrder minor_units no_failure example_db card_request) of Json200 x \<Rightarrow> x)) = Some ''paid''"
proof -
  let ?X = "createOrder minor_units no_failure example_db card_request"
  have x: "?X = (Json200 (case fst ?X of Json200 x \<Rightarrow> x), fst (snd ?X), snd (snd ?X))"
    by code_simp
  have nc: "req_payment_method card_request \<noteq> ''cash''" by code_simp
  from createOrder_initial_status [OF wf_example_db x] nc
  have 1: "map_option o_payment_status (od_order (case fst ?X of Json200 x \<Rightarrow> x)) = Some ''paid''"
    by auto
  from createOrder_initial_status [OF wf_example_db createOrder_example]
  have 2: "select_order example_db_after 1 = [example_order_row] \<and>
           req_payment_method example_request = ''cash'' \<and>
           o_order_status example_order_row = ''pending'' \<and>
           o_payment_status example_order_row = ''pending''"
    by (auto simp: example_order_data_def example_order_row_def)
  from wf_example_db createOrder_example 1 2 nc show ?thesis
    by (simp add: example_order_data_def)
qed

text \<open>
  Claim C9, as stated, fails: a CreateOrder whose transaction commits does not always emit
  an event. When the read of the order row after the commit fails, the order is stored, the
  request is answered with 500 and nothing is emitted.
\<close>

theorem createOrder_commit_without_event_counterexample:
  "\<not> tx_aborted (failure_at SelectOrder) example_db card_request \<and>
   orders (fst (snd (createOrder minor_units (failure_at SelectOrder) example_db card_request))) =
     [example_order_row\<lparr>o_payment_method := ''card'', o_payment_status := ''paid''\<rparr>] \<and>
   order_items (fst (snd (createOrder minor_units (failure_at SelectOrder) example_db card_request))) =
     example_item_rows \<and>
   snd (snd (createOrder minor_units (failure_at SelectOrder) example_db card_request)) = []"
  by code_simp

text \<open>
  Claim C9, amended. A CreateOrder answered with success emits exactly one
  \<^verbatim>\<open>new-order\<close> event, whose payload is the response body: the persisted order row
  together with its item rows, one per submitted item. A CreateOrder answered with an error
  emits no event. The response is a success exactly when the transaction is not aborted and
  the read of the order row after the commit does not fail.
\<close>

theorem createOrder_event:
  assumes "wf_db d" and "createOrder ar fails d req = (res, d', evs)"
  shows "(\<forall>data. res = Json200 data \<longrightarrow>
            evs = [NewOrder data] \<and>
            (\<exists>r n its. od_order data = Some r \<and> select_order d' (o_id r) = [r] \<and>
               od_items data = select_items d' (o_id r) \<and>
               validate_input req = Some (n, its) \<and>
               od_items data = item_rows (next_item_id d) (o_id r) its)) \<and>
         ((\<forall>data. res \<noteq> Json200 data) \<longrightarrow> evs = []) \<and>
         ((\<exists>data. res = Json200 data) \<longleftrightarrow> \<not> tx_aborted fails d req \<and> \<not> fails SelectOrder)"
proof -
  have a: "evs = [NewOrder data] \<and>
           (\<exists>r n its. od_order data = Some r \<and> select_order d' (o_id r) = [r] \<and>
               od_items data = select_items d' (o_id r) \<and>
               validate_input req = Some (n, its) \<and>
               od_items data = item_rows (next_item_id d) (o_id r) its)"
    if "res = Json200 data" for data
  proof -
    from that assms(2) have e: "createOrder ar fails d req = (Json200 data, d', evs)" by simp
    from createOrder_Json200 [OF e] have
      c: "order_committed ar d req d'" and
      dt: "data = \<lparr>od_order = first_row (select_order d' (next_order_id d)),
                   od_items = select_items d' (next_order_id d)\<rparr>" and
      ev: "evs = [NewOrder data]"
      by simp_all
    from read_back [OF assms(1) c] obtain n its t where
      v: "validate_input req = Some (n, its)" and
      r: "select_order d' (next_order_id d) = [new_order_row ar d req t n its]" and
      i: "select_items d' (next_order_id d) = item_rows (next_item_id d) (next_order_id d) its"
      by blast
    have "o_id (new_order_row ar d req t n its) = next_order_id d"
      by (simp add: new_order_row_def)
    with dt r i v ev show ?thesis
      by (simp add: first_row_def)
  qed
  have b: "evs = []" if "\<forall>data. res \<noteq> Json200 data"
    using createOrder_no_event [OF assms(2) that] .
  have c: "(\<exists>data. res = Json200 data) \<longleftrightarrow> \<not> tx_aborted fails d req \<and> \<not> fails SelectOrder"
  proof (cases "tx_aborted fails d req")
    case True
    from createOrder_aborted [OF True, of ar] assms(2) True show ?thesis by auto
  next
    case False
    from createOrder_not_aborted [OF False, of ar] assms(2) False show ?thesis
      by (auto split: if_splits)
  qed
  from a b c show ?thesis by blast
qed

theorem createOrder_event_witness:
  "wf_db example_db \<and>
   createOrder minor_units no_failure example_db example_request =
     (Json200 example_order_data, example_db_after, [NewOrder example_order_data]) \<and>
   select_items example_db_after 1 = example_item_rows \<and>
   snd (snd (createOrder minor_units (failure_at Commit) example_db example_request)) = [] \<and>
   snd (snd (createOrder minor_units (failure_at SelectOrder) example_db example_request)) = []"
proof -
  let ?Y = "createOrder minor_units (failure_at Commit) example_db example_request"
  let ?Z = "createOrder minor_units (failure_at SelectOrder) example_db example_request"
  have y: "?Y = (Status500, fst (snd ?Y), snd (snd ?Y))" by code_simp
  have z: "?Z = (Status500, fst (snd ?Z), snd (snd ?Z))" by code_simp
  from createOrder_event [OF wf_example_db createOrder_example]
  have 1: "select_items example_db_after 1 = example_item_rows"
    by (auto simp: example_order_data_def example_order_row_def)
  from createOrder_event [OF wf_example_db y] have 2: "snd (snd ?Y) = []" by simp
  from createOrder_event [OF wf_example_db z] have 3: "snd (snd ?Z) = []" by simp
  from wf_example_db createOrder_example 1 2 3 show ?thesis by simp
qed

subsection \<open>The totals of CreateOrder\<close>

text \<open>
  The rounding agrees with the doubles that the numerals 0.1, 1.005, 3.99, 299 and -0.1
  denote, resolves the ties at \<open>2 ^ 53 + 1\<close> and \<open>2 ^ 53 + 3\<close> to the even neighbour, and
  gives the double of \<^verbatim>\<open>0.1 + 0.2\<close>.
\<close>

lemma round64_examples:
  "round64 (1 / 10) = Finite (3602879701896397 / 36028797018963968) \<and>
   round64 (201 / 200) = Finite (1131529406376837 / 1125899906842624) \<and>
   round64 (399 / 100) = Finite (2246170314151035 / 562949953421312) \<and>
   round64 299 = Finite 299 \<and>
   round64 (- (1 / 10)) = Finite (- (3602879701896397 / 36028797018963968)) \<and>
   round64 9007199254740993 = Finite 9007199254740992 \<and>
   round64 9007199254740995 = Finite 9007199254740996 \<and>
   double_plus (round64 (1 / 10)) (round64 (2 / 10)) = Finite (1351079888211149 / 4503599627370496)"
  by code_simp

lemma total_of_binary64:
  "total_of binary64 price its =
     foldl (\<lambda>total it. double_plus total (double_times (double_parseFloat (price it)) (item_quantity it)))
       (Finite 0) its"
  by (simp add: total_of_def binary64_def)







subsection \<open>CreateOrder and the table lookup\<close>

text \<open>
  Claim C3, as stated, fails: the lookup \<^verbatim>\<open>WHERE table_number = ?\<close> does not read
  \<^verbatim>\<open>is_active\<close>. Table 4 of the example is inactive, and an order for it is created.
\<close>

theorem createOrder_inactive_table_counterexample:
  "map t_is_active (select_table example_db 4) = [False] \<and>
   fst (createOrder minor_units no_failure example_db inactive_table_request) =
     Json200 \<lparr>od_order = Some (example_order_row\<lparr>o_table_id := 8, o_table_number := 4\<rparr>),
              od_items = example_item_rows\<rparr> \<and>
   orders (fst (snd (createOrder minor_units no_failure example_db inactive_table_request))) =
     [example_order_row\<lparr>o_table_id := 8, o_table_number := 4\<rparr>] \<and>
   order_items (fst (snd (createOrder minor_units no_failure example_db inactive_table_request))) =
     example_item_rows"
  by code_simp

text \<open>
  Claim C3, amended. For every CreateOrder request that passes the input check and whose
  table number matches no row of \<^verbatim>\<open>restaurant_tables\<close>, the response is 404
  (NotFound), or 500 if beginning the transaction or the lookup itself fails; in all these
  cases the database is unchanged and no event is emitted.
\<close>

theorem createOrder_unknown_table:
  assumes "validate_input req = Some (n, its)"
    and "\<forall>t \<in> set (restaurant_tables d). t_table_number t \<noteq> n"
  shows "createOrder ar fails d req =
           (if fails BeginTransaction \<or> fails SelectTable then Status500 else Status404, d, [])"
proof -
  from assms(2) have "select_table d n = []"
    by (simp add: select_table_def filter_empty_conv)
  with assms(1) show ?thesis
    by (simp add: createOrder_def)
qed

theorem createOrder_unknown_table_witness:
  "validate_input unknown_table_request = Some (999, [pizza, soda]) \<and>
   map t_table_number (restaurant_tables example_db) = [3, 4] \<and>
   createOrder minor_units no_failure example_db unknown_table_request = (Status404, example_db, [])"
proof -
  have v: "validate_input unknown_table_request = Some (999, [pizza, soda])" by code_simp
  have t: "\<forall>t \<in> set (restaurant_tables example_db). t_table_number t \<noteq> 999" by code_simp
  have m: "map t_table_number (restaurant_tables example_db) = [3, 4]" by code_simp
  from createOrder_unknown_table [OF v t, of minor_units no_failure] v m show ?thesis
    by (simp add: no_failure_def)
qed

subsection \<open>CreateOrder and the input check\<close>

text \<open>
  Claim C4, as stated, fails: the handler checks that the items are present and non-empty,
  and nothing about the entries. An order with one entry of quantity 0 is created.
\<close>

theorem createOrder_zero_quantity_counterexample:
  "req_items zero_quantity_request = Some [pizza\<lparr>item_quantity := 0\<rparr>] \<and>
   fst (createOrder minor_units no_failure example_db zero_quantity_request) =
     Json200 \<lparr>od_order = Some (example_order_row\<lparr>o_total_amount_inr := 0, o_total_amount_usd := 0\<rparr>),
              od_items = [new_item_row 1 1 (pizza\<lparr>item_quantity := 0\<rparr>)]\<rparr> \<and>
   orders (fst (snd (createOrder minor_units no_failure example_db zero_quantity_request))) =
     [example_order_row\<lparr>o_total_amount_inr := 0, o_total_amount_usd := 0\<rparr>]"
  by code_simp

text \<open>
  Claim C4, amended. For every CreateOrder request whose items are missing or empty, the
  response is 400 (InvalidInput), or 500 if the transaction cannot be begun; the database
  is unchanged and no event is emitted.
\<close>

theorem createOrder_empty_items:
  assumes "req_items req = None \<or> req_items req = Some []"
  shows "createOrder ar fails d req =
           (if fails BeginTransaction then Status500 else Status400, d, [])"
proof -
  from assms have "validate_input req = None"
    by (auto simp: validate_input_def split: option.splits)
  then show ?thesis
    by (simp add: createOrder_def)
qed

theorem createOrder_empty_items_witness:
  "req_items empty_items_request = Some [] \<and>
   createOrder minor_units no_failure example_db empty_items_request = (Status400, example_db, [])"
proof -
  have e: "req_items empty_items_request = Some []" by code_simp
  then have "req_items empty_items_request = None \<or> req_items empty_items_request = Some []" by simp
  from createOrder_empty_items [OF this, of minor_units no_failure example_db] e show ?thesis
    by (simp add: no_failure_def)
qed

subsection \<open>UpdateOrderStatus\<close>

lemma select_order_set_status:
  "select_order (set_order_status oid st d) oid = map (\<lambda>r. r\<lparr>o_order_status := st\<rparr>) (select_order d oid)"
proof -
  have "filter (\<lambda>r. o_id r = oid) (map (\<lambda>r. if o_id r = oid then r\<lparr>o_order_status := st\<rparr> else r) xs) =
        map (\<lambda>r. r\<lparr>o_order_status := st\<rparr>) (filter (\<lambda>r. o_id r = oid) xs)" for xs :: "'a order_row list"
    by (induction xs) simp_all
  then show ?thesis
    by (simp add: select_order_def set_order_status_def)
qed

lemma set_order_status_absent:
  assumes "select_order d oid = []"
  shows "orders (set_order_status oid st d) = orders d"
proof -
  from assms have "\<forall>r \<in> set (orders d). o_id r \<noteq> oid"
    by (simp add: select_order_def filter_empty_conv)
  then have "map (\<lambda>r. if o_id r = oid then r\<lparr>o_order_status := st\<rparr> else r) (orders d) = orders d"
    by (simp add: map_idI)
  then show ?thesis by (simp add: set_order_status_def)
qed

text \<open>
  Claim C5. When no order has the given id and the update statement does not fail, the
  response is 404 (NotFound) and the orders are unchanged. When an order has the given id and
  neither statement fails, the response is a success carrying that order with
  \<^verbatim>\<open>order_status\<close> set to the new status, which is also the row now stored, whether or
  not the new status differs from the old one.
\<close>

theorem updateOrderStatus_result:
  assumes "updateOrderStatus fails d oid st = (res, d', evs)"
  shows "(select_order d oid = [] \<and> \<not> fails UpdateStatus \<longrightarrow>
            res = Status404 \<and> orders d' = orders d \<and> evs = []) \<and>
         (select_order d oid \<noteq> [] \<and> \<not> fails UpdateStatus \<and> \<not> fails SelectUpdated \<longrightarrow>
            (\<exists>r0 r. first_row (select_order d oid) = Some r0 \<and> r = r0\<lparr>o_order_status := st\<rparr> \<and>
               res = Json200 (Some r) \<and> o_id r = oid \<and> o_order_status r = st \<and>
               r \<in> set (orders d') \<and> evs = [OrderStatusUpdated (Some r)]))"
proof -
  have a: "res = Status404 \<and> orders d' = orders d \<and> evs = []"
    if "select_order d oid = []" "\<not> fails UpdateStatus"
    using that assms set_order_status_absent [OF that(1), of st]
    by (auto simp: updateOrderStatus_def affectedRows_orders_def Let_def)
  have b: "\<exists>r0 r. first_row (select_order d oid) = Some r0 \<and> r = r0\<lparr>o_order_status := st\<rparr> \<and>
               res = Json200 (Some r) \<and> o_id r = oid \<and> o_order_status r = st \<and>
               r \<in> set (orders d') \<and> evs = [OrderStatusUpdated (Some r)]"
    if ne: "select_order d oid \<noteq> []" and nf: "\<not> fails UpdateStatus" "\<not> fails SelectUpdated"
  proof -
    from ne obtain r0 rs where s: "select_order d oid = r0 # rs" by (cases "select_order d oid") auto
    let ?r = "r0\<lparr>o_order_status := st\<rparr>"
    have s': "select_order (set_order_status oid st d) oid = ?r # map (\<lambda>r. r\<lparr>o_order_status := st\<rparr>) rs"
      by (simp add: select_order_set_status s)
    from s have "r0 \<in> set (select_order d oid)" by simp
    then have id: "o_id r0 = oid" by (simp add: select_order_def)
    from s' have "?r \<in> set (select_order (set_order_status oid st d) oid)" by simp
    then have mem: "?r \<in> set (orders (set_order_status oid st d))" by (simp add: select_order_def)
    from assms nf s s' have "res = Json200 (Some ?r) \<and> d' = set_order_status oid st d \<and>
        evs = [OrderStatusUpdated (Some ?r)]"
      by (auto simp: updateOrderStatus_def affectedRows_orders_def Let_def first_row_def)
    with s id mem show ?thesis by (simp add: first_row_def)
  qed
  from a b show ?thesis by blast
qed

theorem updateOrderStatus_result_witness:
  "select_order example_db_after 1 \<noteq> [] \<and> select_order example_db_after 5 = [] \<and>
   updateOrderStatus no_failure example_db_after 1 ''preparing'' =
     (Json200 (Some (example_order_row\<lparr>o_order_status := ''preparing''\<rparr>)),
      example_db_after\<lparr>orders := [example_order_row\<lparr>o_order_status := ''preparing''\<rparr>]\<rparr>,
      [OrderStatusUpdated (Some (example_order_row\<lparr>o_order_status := ''preparing''\<rparr>))]) \<and>
   fst (updateOrderStatus no_failure example_db_after 1 ''pending'') = Json200 (Some example_order_row) \<and>
   fst (updateOrderStatus no_failure example_db_after 5 ''preparing'') = Status404"
proof -
  let ?U = "updateOrderStatus no_failure example_db_after 1 ''preparing''"
  let ?V = "updateOrderStatus no_failure example_db_after 1 ''pending''"
  let ?W = "updateOrderStatus no_failure example_db_after 5 ''preparing''"
  have u: "?U = (fst ?U, fst (snd ?U), snd (snd ?U))" by simp
  have v: "?V = (fst ?V, fst (snd ?V), snd (snd ?V))" by simp
  have w: "?W = (fst ?W, fst (snd ?W), snd (snd ?W))" by simp
  have e1: "select_order example_db_after 1 = [example_order_row]" by code_simp
  have e5: "select_order example_db_after 5 = []" by code_simp
  have nf: "\<not> no_failure UpdateStatus" "\<not> no_failure SelectUpdated" by (simp_all add: no_failure_def)
  have full: "?U = (Json200 (Some (example_order_row\<lparr>o_order_status := ''preparing''\<rparr>)),
      example_db_after\<lparr>orders := [example_order_row\<lparr>o_order_status := ''preparing''\<rparr>]\<rparr>,
      [OrderStatusUpdated (Some (example_order_row\<lparr>o_order_status := ''preparing''\<rparr>))])"
    by code_simp
  from updateOrderStatus_result [OF v] e1 nf
  have 2: "fst ?V = Json200 (Some example_order_row)"
    by (auto simp: first_row_def example_order_row_def)
  from updateOrderStatus_result [OF w] e5 nf
  have 3: "fst ?W = Status404" by simp
  from e1 e5 full 2 3 show ?thesis by simp
qed

subsection \<open>CancelOrderItem\<close>

lemma orders_cancel_item_rows: "orders (cancel_item_rows iid oid d) = orders d"
  by (simp add: cancel_item_rows_def)

lemma select_order_cancel_item_rows: "select_order (cancel_item_rows iid oid d) k = select_order d k"
  by (simp add: select_order_def cancel_item_rows_def)

lemma insert_cancellation_Some:
  assumes "insert_cancellation oid iid reason cancelled_by d = Some d'"
  shows "orders d' = orders d \<and> order_items d' = order_items d \<and>
         next_order_id d' = next_order_id d \<and> next_item_id d' = next_item_id d \<and>
         select_order d oid \<noteq> [] \<and>
         (\<exists>row. new_cancellation (next_cancellation_id d) oid iid reason cancelled_by = Some row \<and>
                order_cancellations d' = order_cancellations d @ [row])"
  using assms by (auto simp: insert_cancellation_def split: option.splits if_splits)

lemma insert_cancellation_None:
  "insert_cancellation oid iid reason cancelled_by d = None \<longleftrightarrow>
     new_cancellation (next_cancellation_id d) oid iid reason cancelled_by = None \<or>
     select_order d oid = []"
  by (auto simp: insert_cancellation_def split: option.splits)

lemma cancelOrderItem_cases:
  assumes "cancelOrderItem fails d oid iid reason cancelled_by = (res, d')"
  shows "(fails CancelUpdateItem \<and> res = Status500 \<and> d' = d) \<or>
         (\<not> fails CancelUpdateItem \<and> orders d' = orders d \<and>
            order_items d' = order_items (cancel_item_rows iid oid d) \<and>
            (if fails CancelItemInsertRecord \<or>
                new_cancellation (next_cancellation_id d) oid (Some iid) reason cancelled_by = None \<or>
                select_order d oid = []
             then res = Status500 \<and> order_cancellations d' = order_cancellations d
             else res = Json200 ''Item cancelled successfully'' \<and>
                  (\<exists>row. new_cancellation (next_cancellation_id d) oid (Some iid) reason cancelled_by =
                           Some row \<and>
                         order_cancellations d' = order_cancellations d @ [row])))"
proof (cases "fails CancelUpdateItem")
  case True
  with assms show ?thesis by (simp add: cancelOrderItem_def)
next
  case nf: False
  let ?d1 = "cancel_item_rows iid oid d"
  have c: "order_cancellations ?d1 = order_cancellations d" "next_cancellation_id ?d1 = next_cancellation_id d"
    by (simp_all add: cancel_item_rows_def)
  show ?thesis
  proof (cases "fails CancelItemInsertRecord")
    case True
    with nf assms c show ?thesis
      by (auto simp: cancelOrderItem_def Let_def orders_cancel_item_rows)
  next
    case ni: False
    show ?thesis
    proof (cases "insert_cancellation oid (Some iid) reason cancelled_by ?d1")
      case None
      then have "new_cancellation (next_cancellation_id d) oid (Some iid) reason cancelled_by = None \<or>
                 select_order d oid = []"
        by (simp add: insert_cancellation_None select_order_cancel_item_rows c)
      with None nf ni assms c show ?thesis
        by (auto simp: cancelOrderItem_def Let_def orders_cancel_item_rows)
    next
      case (Some d2)
      from insert_cancellation_Some [OF Some] obtain row where
        r: "new_cancellation (next_cancellation_id d) oid (Some iid) reason cancelled_by = Some row"
           "order_cancellations d2 = order_cancellations d @ [row]" and
        e: "select_order d oid \<noteq> []" and
        o: "orders d2 = orders ?d1" "order_items d2 = order_items ?d1"
        by (auto simp: c select_order_cancel_item_rows)
      from Some nf ni assms have "res = Json200 ''Item cancelled successfully'' \<and> d' = d2"
        by (auto simp: cancelOrderItem_def Let_def)
      with nf ni r e o show ?thesis
        by (simp add: orders_cancel_item_rows)
    qed
  qed
qed

text \<open>
  What the handler does for every pair of an order id and an item id that match no item
  row: the status write affects zero rows, no item or order row changes, and the response
  is never 404; when the order exists and no statement fails the response is a success and
  a cancellation record naming the order and the item is appended.
\<close>

lemma cancelOrderItem_mismatch:
  assumes "\<forall>r \<in> set (order_items d). \<not> (oi_id r = iid \<and> oi_order_id r = oid)"
    and "cancelOrderItem fails d oid iid reason cancelled_by = (res, d')"
  shows "affectedRows_items d iid oid = 0 \<and> order_items d' = order_items d \<and> orders d' = orders d \<and>
         res \<noteq> Status404 \<and>
         (\<not> fails CancelUpdateItem \<and> \<not> fails CancelItemInsertRecord \<and> select_order d oid \<noteq> [] \<and>
          new_cancellation (next_cancellation_id d) oid (Some iid) reason cancelled_by = Some row \<longrightarrow>
            res = Json200 ''Item cancelled successfully'' \<and>
            order_cancellations d' = order_cancellations d @ [row])"
proof -
  from assms(1) have z: "affectedRows_items d iid oid = 0"
    by (simp add: affectedRows_items_def filter_empty_conv)
  from assms(1) have
    "map (\<lambda>r. if oi_id r = iid \<and> oi_order_id r = oid then r\<lparr>oi_item_status := ''cancelled''\<rparr> else r)
       (order_items d) = order_items d"
    by (intro map_idI) auto
  then have i: "order_items (cancel_item_rows iid oid d) = order_items d"
    by (simp add: cancel_item_rows_def)
  from cancelOrderItem_cases [OF assms(2)] z i show ?thesis
    by (auto split: if_splits)
qed

text \<open>
  Claim C6. For a CancelOrderItem call in which the item does not belong to the specified
  order, the status write affects zero rows and the operation is to report NotFound. The
  handler does not: item 3 belongs to order 2, and cancelling it as an item of order 1
  affects zero rows, appends a cancellation record for order 1 and item 3, and answers with
  success.
\<close>

theorem cancelOrderItem_mismatch_reports_success:
  "map oi_order_id (filter (\<lambda>r. oi_id r = 3) (order_items two_orders_db)) = [2] \<and>
   affectedRows_items two_orders_db 3 1 = 0 \<and>
   cancelOrderItem no_failure two_orders_db 1 3 (JsonString ''wrong dish'') (JsonString ''customer'') =
     (Json200 ''Item cancelled successfully'',
      two_orders_db
        \<lparr>order_cancellations :=
           [\<lparr>c_id = 1, c_order_id = 1, c_item_id = Some 3, c_reason = ''wrong dish'',
             c_cancelled_by = Some ''customer''\<rparr>],
         next_cancellation_id := 2\<rparr>)"
  by code_simp

text \<open>
  Claim C7. CancelOrderItem leaves every order row as it was: in particular both totals of
  every order are what they were before the call. When the update statement does not fail,
  every item row with the given id and order id has status \<^verbatim>\<open>cancelled\<close> afterwards,
  changed in no other column, and all other item rows are kept. (By the lemmas of the last
  subsection no other handler changes the totals of a stored order either, so the totals
  are those written at creation.)
\<close>

theorem cancelOrderItem_totals_unchanged:
  assumes "cancelOrderItem fails d oid iid reason cancelled_by = (res, d')"
  shows "orders d' = orders d \<and>
         (\<not> fails CancelUpdateItem \<longrightarrow>
            (\<forall>r \<in> set (order_items d). oi_id r = iid \<and> oi_order_id r = oid \<longrightarrow>
               r\<lparr>oi_item_status := ''cancelled''\<rparr> \<in> set (order_items d')) \<and>
            (\<forall>r \<in> set (order_items d'). oi_id r = iid \<and> oi_order_id r = oid \<longrightarrow>
               oi_item_status r = ''cancelled'') \<and>
            (\<forall>r \<in> set (order_items d). \<not> (oi_id r = iid \<and> oi_order_id r = oid) \<longrightarrow>
               r \<in> set (order_items d')))"
proof -
  let ?f = "\<lambda>r::'a item_row. if oi_id r = iid \<and> oi_order_id r = oid
                then r\<lparr>oi_item_status := ''cancelled''\<rparr> else r"
  have o: "orders d' = orders d"
    using cancelOrderItem_cases [OF assms] by auto
  have p: "(\<forall>r \<in> set (order_items d). oi_id r = iid \<and> oi_order_id r = oid \<longrightarrow>
               r\<lparr>oi_item_status := ''cancelled''\<rparr> \<in> set (order_items d')) \<and>
            (\<forall>r \<in> set (order_items d'). oi_id r = iid \<and> oi_order_id r = oid \<longrightarrow>
               oi_item_status r = ''cancelled'') \<and>
            (\<forall>r \<in> set (order_items d). \<not> (oi_id r = iid \<and> oi_order_id r = oid) \<longrightarrow>
               r \<in> set (order_items d'))"
    if nf: "\<not> fails CancelUpdateItem"
  proof -
    from cancelOrderItem_cases [OF assms] nf
    have "order_items d' = order_items (cancel_item_rows iid oid d)" by auto
    then have s: "set (order_items d') = ?f ` set (order_items d)"
      by (simp add: cancel_item_rows_def)
    have 1: "r\<lparr>oi_item_status := ''cancelled''\<rparr> \<in> set (order_items d')"
      if "r \<in> set (order_items d)" "oi_id r = iid \<and> oi_order_id r = oid" for r
    proof -
      from that(2) have e: "?f r = r\<lparr>oi_item_status := ''cancelled''\<rparr>" by simp
      from that(1) have "?f r \<in> ?f ` set (order_items d)" by (rule imageI)
      with s e show ?thesis by (simp only:)
    qed
    have 2: "oi_item_status r' = ''cancelled''"
      if "r' \<in> set (order_items d')" "oi_id r' = iid \<and> oi_order_id r' = oid" for r'
    proof -
      from that(1) s obtain r where r: "r \<in> set (order_items d)" "r' = ?f r" by blast
      show ?thesis
      proof (cases "oi_id r = iid \<and> oi_order_id r = oid")
        case True
        with r(2) show ?thesis by simp
      next
        case False
        with r(2) have "r' = r" by simp
        with that(2) False show ?thesis by simp
      qed
    qed
    have 3: "r \<in> set (order_items d')"
      if "r \<in> set (order_items d)" "\<not> (oi_id r = iid \<and> oi_order_id r = oid)" for r
    proof -
      from that(2) have e: "?f r = r" by auto
      from that(1) have "?f r \<in> ?f ` set (order_items d)" by (rule imageI)
      with s e show ?thesis by (simp only:)
    qed
    from 1 2 3 show ?thesis by blast
  qed
  from o p show ?thesis by blast
qed

theorem cancelOrderItem_totals_unchanged_witness:
  "\<not> no_failure CancelUpdateItem \<and>
   hd example_item_rows \<in> set (order_items example_db_after) \<and>
   oi_id (hd example_item_rows) = 1 \<and> oi_order_id (hd example_item_rows) = 1 \<and>
   orders (snd (cancelOrderItem no_failure example_db_after 1 1 (JsonString ''too slow'') (JsonString ''customer''))) =
     [example_order_row] \<and>
   (hd example_item_rows)\<lparr>oi_item_status := ''cancelled''\<rparr> \<in>
     set (order_items (snd (cancelOrderItem no_failure example_db_after 1 1 (JsonString ''too slow'') (JsonString ''customer''))))"
proof -
  let ?C = "cancelOrderItem no_failure example_db_after 1 1 (JsonString ''too slow'') (JsonString ''customer'')"
  have c: "?C = (fst ?C, snd ?C)" by simp
  have nf: "\<not> no_failure CancelUpdateItem" by (simp add: no_failure_def)
  have m: "hd example_item_rows \<in> set (order_items example_db_after)" by code_simp
  have i: "oi_id (hd example_item_rows) = 1 \<and> oi_order_id (hd example_item_rows) = 1" by code_simp
  have o: "orders example_db_after = [example_order_row]" by code_simp
  from cancelOrderItem_totals_unchanged [OF c] nf
  have 1: "orders (snd ?C) = orders example_db_after" and
    2: "\<forall>r \<in> set (order_items example_db_after). oi_id r = 1 \<and> oi_order_id r = 1 \<longrightarrow>
          r\<lparr>oi_item_status := ''cancelled''\<rparr> \<in> set (order_items (snd ?C))"
    by blast+
  from 2 m i have 3: "(hd example_item_rows)\<lparr>oi_item_status := ''cancelled''\<rparr> \<in> set (order_items (snd ?C))"
    by blast
  from nf m i 1 o 3 show ?thesis by simp
qed

subsection \<open>CancelOrder\<close>

lemma cancelOrder_cases:
  assumes "cancelOrder fails d oid reason cancelled_by = (res, d')"
  shows "(fails CancelUpdateOrder \<and> res = Status500 \<and> d' = d) \<or>
         (\<not> fails CancelUpdateOrder \<and> orders d' = orders (set_order_status oid ''cancelled'' d) \<and>
            order_items d' = order_items d \<and>
            (if fails CancelInsertRecord \<or>
                new_cancellation (next_cancellation_id d) oid None reason cancelled_by = None \<or>
                select_order d oid = []
             then res = Status500 \<and> order_cancellations d' = order_cancellations d \<and>
                  next_cancellation_id d' = next_cancellation_id d
             else res = Json200 ''Order cancelled successfully'' \<and>
                  (\<exists>row. new_cancellation (next_cancellation_id d) oid None reason cancelled_by =
                           Some row \<and>
                         order_cancellations d' = order_cancellations d @ [row])))"
proof (cases "fails CancelUpdateOrder")
  case True
  with assms show ?thesis by (simp add: cancelOrder_def)
next
  case nf: False
  let ?d1 = "set_order_status oid ''cancelled'' d"
  have c: "order_cancellations ?d1 = order_cancellations d"
    "next_cancellation_id ?d1 = next_cancellation_id d" "order_items ?d1 = order_items d"
    by (simp_all add: set_order_status_def)
  have e: "select_order ?d1 oid = [] \<longleftrightarrow> select_order d oid = []"
    by (simp add: select_order_set_status)
  show ?thesis
  proof (cases "fails CancelInsertRecord")
    case True
    with nf assms c show ?thesis
      by (auto simp: cancelOrder_def Let_def)
  next
    case ni: False
    show ?thesis
    proof (cases "insert_cancellation oid None reason cancelled_by ?d1")
      case None
      then have "new_cancellation (next_cancellation_id d) oid None reason cancelled_by = None \<or>
                 select_order d oid = []"
        by (simp add: insert_cancellation_None e c)
      with None nf ni assms c show ?thesis
        by (auto simp: cancelOrder_def Let_def)
    next
      case (Some d2)
      from insert_cancellation_Some [OF Some] e obtain row where
        r: "new_cancellation (next_cancellation_id d) oid None reason cancelled_by = Some row"
           "order_cancellations d2 = order_cancellations d @ [row]" and
        x: "select_order d oid \<noteq> []" and
        o: "orders d2 = orders ?d1" "order_items d2 = order_items d"
        by (auto simp: c)
      from Some nf ni assms have "res = Json200 ''Order cancelled successfully'' \<and> d' = d2"
        by (auto simp: cancelOrder_def Let_def)
      with nf ni r x o show ?thesis by simp
    qed
  qed
qed

lemma set_order_status_idem:
  "orders (set_order_status oid st (set_order_status oid st d)) = orders (set_order_status oid st d)"
  by (simp add: set_order_status_def)

lemma new_cancellation_id:
  "new_cancellation cid oid iid reason cancelled_by = None \<longleftrightarrow>
     new_cancellation cid' oid iid reason cancelled_by = None"
  by (simp add: new_cancellation_def split: json_field.splits)

text \<open>
  The handler does not look at the status an order has: a second call with the same body
  and the same failing statements is answered as the first.
\<close>

lemma cancelOrder_again:
  assumes "cancelOrder fails d oid reason cancelled_by = (res, d')"
    and "cancelOrder fails d' oid reason cancelled_by = (res', d'')"
  shows "res' = res"
proof (cases "fails CancelUpdateOrder")
  case True
  with assms show ?thesis by (simp add: cancelOrder_def)
next
  case False
  with cancelOrder_cases [OF assms(1)] have
    o: "orders d' = orders (set_order_status oid ''cancelled'' d)" by simp
  then have "select_order d' oid = select_order (set_order_status oid ''cancelled'' d) oid"
    by (simp add: select_order_def)
  then have e: "select_order d' oid = [] \<longleftrightarrow> select_order d oid = []"
    by (simp add: select_order_set_status)
  note n = new_cancellation_id [of "next_cancellation_id d'" oid None reason cancelled_by
      "next_cancellation_id d"]
  from cancelOrder_cases [OF assms(1)] cancelOrder_cases [OF assms(2)] False e n
  show ?thesis
    by (cases "fails CancelInsertRecord \<or>
          new_cancellation (next_cancellation_id d) oid None reason cancelled_by = None \<or>
          select_order d oid = []") auto
qed

text \<open>
  Two calls on an existing order are never answered with 404 or 400. When both bodies
  carry a reason and \<^verbatim>\<open>cancelled_by\<close> is sent, and no statement fails, both are answered
  with success; the order has status \<^verbatim>\<open>cancelled\<close> after the first call, the second
  call leaves the order rows as they are, and each call appends one cancellation record.
\<close>

lemma cancelOrder_twice:
  assumes "select_order d oid \<noteq> []"
    and "cancelOrder fails d oid reason cancelled_by = (res, d')"
    and "cancelOrder fails' d' oid reason' cancelled_by' = (res', d'')"
  shows "res \<noteq> Status404 \<and> res \<noteq> Status400 \<and> res' \<noteq> Status404 \<and> res' \<noteq> Status400 \<and>
         (\<not> fails CancelUpdateOrder \<and> \<not> fails CancelInsertRecord \<and>
          \<not> fails' CancelUpdateOrder \<and> \<not> fails' CancelInsertRecord \<and>
          new_cancellation (next_cancellation_id d) oid None reason cancelled_by = Some row \<and>
          new_cancellation (next_cancellation_id d') oid None reason' cancelled_by' = Some row' \<longrightarrow>
            res = Json200 ''Order cancelled successfully'' \<and>
            res' = Json200 ''Order cancelled successfully'' \<and>
            (\<forall>r \<in> set (select_order d' oid). o_order_status r = ''cancelled'') \<and>
            orders d'' = orders d' \<and>
            order_cancellations d'' = order_cancellations d @ [row, row'])"
proof -
  note 1 = cancelOrder_cases [OF assms(2)]
  note 2 = cancelOrder_cases [OF assms(3)]
  from 1 have a: "res \<noteq> Status404 \<and> res \<noteq> Status400" by (auto split: if_splits)
  from 2 have b: "res' \<noteq> Status404 \<and> res' \<noteq> Status400" by (auto split: if_splits)
  have c: "res = Json200 ''Order cancelled successfully'' \<and>
            res' = Json200 ''Order cancelled successfully'' \<and>
            (\<forall>r \<in> set (select_order d' oid). o_order_status r = ''cancelled'') \<and>
            orders d'' = orders d' \<and>
            order_cancellations d'' = order_cancellations d @ [row, row']"
    if nf: "\<not> fails CancelUpdateOrder" "\<not> fails CancelInsertRecord"
      "\<not> fails' CancelUpdateOrder" "\<not> fails' CancelInsertRecord" and
      n1: "new_cancellation (next_cancellation_id d) oid None reason cancelled_by = Some row" and
      n2: "new_cancellation (next_cancellation_id d') oid None reason' cancelled_by' = Some row'"
  proof -
    from 1 nf n1 assms(1) have
      r1: "res = Json200 ''Order cancelled successfully''" and
      o1: "orders d' = orders (set_order_status oid ''cancelled'' d)" and
      c1: "order_cancellations d' = order_cancellations d @ [row]"
      by simp_all
    from o1 have s1: "select_order d' oid = select_order (set_order_status oid ''cancelled'' d) oid"
      by (simp add: select_order_def)
    with assms(1) have e1: "select_order d' oid \<noteq> []"
      by (simp add: select_order_set_status)
    from s1 have st: "\<forall>r \<in> set (select_order d' oid). o_order_status r = ''cancelled''"
      by (auto simp: select_order_set_status)
    from 2 nf n2 e1 have
      r2: "res' = Json200 ''Order cancelled successfully''" and
      o2: "orders d'' = orders (set_order_status oid ''cancelled'' d')" and
      c2: "order_cancellations d'' = order_cancellations d' @ [row']"
      by simp_all
    from o1 have "orders (set_order_status oid ''cancelled'' d') = orders d'"
      by (simp add: set_order_status_def)
    with o2 have o: "orders d'' = orders d'" by simp
    from r1 r2 st o c1 c2 show ?thesis by simp
  qed
  from a b c show ?thesis by blast
qed

text \<open>
  Claim C10. Invoking CancelOrder twice on the same existing order id is to report success
  both times. The spec's interface makes \<^verbatim>\<open>cancelledBy\<close> optional and the column has a
  default, but the handler binds \<^verbatim>\<open>req.body.cancelled_by\<close> as it is: for a body without
  it, the status write runs, \<^verbatim>\<open>execute\<close> throws on the undefined parameter, no
  cancellation record is written, and both calls are answered with 500.
\<close>

theorem cancelOrder_without_cancelled_by:
  "select_order example_db_after 1 = [example_order_row] \<and>
   cancelOrder no_failure example_db_after 1 (JsonString ''changed mind'') Undefined =
     (Status500, example_db_after\<lparr>orders := [example_order_row\<lparr>o_order_status := ''cancelled''\<rparr>]\<rparr>) \<and>
   cancelOrder no_failure
       (example_db_after\<lparr>orders := [example_order_row\<lparr>o_order_status := ''cancelled''\<rparr>]\<rparr>)
       1 (JsonString ''changed mind'') Undefined =
     (Status500, example_db_after\<lparr>orders := [example_order_row\<lparr>o_order_status := ''cancelled''\<rparr>]\<rparr>)"
  by code_simp

subsection \<open>What every handler preserves\<close>

text \<open>
  The other handlers keep the keys unique as well, and no handler changes the id or the
  totals of an order row that is stored: CreateOrder only appends, the two status writes
  change \<^verbatim>\<open>order_status\<close> alone, and CancelOrderItem does not write to \<open>orders\<close>.
\<close>

lemma wf_db_cong:
  fixes d d' :: "'p db"
  assumes "map o_id (orders d') = map o_id (orders d)"
    and "map (\<lambda>r. (oi_id r, oi_order_id r)) (order_items d') = map (\<lambda>r. (oi_id r, oi_order_id r)) (order_items d)"
    and "next_order_id d' = next_order_id d" and "next_item_id d' = next_item_id d"
  shows "wf_db d' \<longleftrightarrow> wf_db d"
proof -
  from assms(1) have o: "o_id ` set (orders d') = o_id ` set (orders d)"
    by (metis set_map)
  from assms(2) have i: "(\<lambda>r. (oi_id r, oi_order_id r)) ` set (order_items d') =
      (\<lambda>r. (oi_id r, oi_order_id r)) ` set (order_items d)"
    by (metis set_map)
  from assms(2) have "map fst (map (\<lambda>r. (oi_id r, oi_order_id r)) (order_items d')) =
      map fst (map (\<lambda>r. (oi_id r, oi_order_id r)) (order_items d))"
    by simp
  then have m: "map oi_id (order_items d') = map oi_id (order_items d)"
    by (simp add: comp_def)
  have alt: "wf_db e \<longleftrightarrow>
      (\<forall>x \<in> o_id ` set (orders e). x < next_order_id e) \<and> distinct (map o_id (orders e)) \<and>
      (\<forall>p \<in> (\<lambda>r. (oi_id r, oi_order_id r)) ` set (order_items e).
          fst p < next_item_id e \<and> snd p \<in> o_id ` set (orders e)) \<and>
      distinct (map oi_id (order_items e))"
    for e :: "'p db"
    by (auto simp: wf_db_def)
  have "(\<forall>x \<in> o_id ` set (orders d'). x < next_order_id d') \<and> distinct (map o_id (orders d')) \<and>
      (\<forall>p \<in> (\<lambda>r. (oi_id r, oi_order_id r)) ` set (order_items d').
          fst p < next_item_id d' \<and> snd p \<in> o_id ` set (orders d')) \<and>
      distinct (map oi_id (order_items d')) \<longleftrightarrow>
      (\<forall>x \<in> o_id ` set (orders d). x < next_order_id d) \<and> distinct (map o_id (orders d)) \<and>
      (\<forall>p \<in> (\<lambda>r. (oi_id r, oi_order_id r)) ` set (order_items d).
          fst p < next_item_id d \<and> snd p \<in> o_id ` set (orders d)) \<and>
      distinct (map oi_id (order_items d))"
    unfolding o i m assms(1) assms(3) assms(4) ..
  with alt [of d'] alt [of d] show ?thesis
    by argo
qed

lemma set_order_status_wf: "wf_db (set_order_status oid st d) \<longleftrightarrow> wf_db d"
proof (rule wf_db_cong)
  show "map o_id (orders (set_order_status oid st d)) = map o_id (orders d)"
    by (simp add: set_order_status_def comp_def if_distrib [of o_id] cong: if_cong)
qed (simp_all add: set_order_status_def)

lemma cancel_item_rows_wf: "wf_db (cancel_item_rows iid oid d) \<longleftrightarrow> wf_db d"
proof (rule wf_db_cong)
  show "map (\<lambda>r. (oi_id r, oi_order_id r)) (order_items (cancel_item_rows iid oid d)) =
        map (\<lambda>r. (oi_id r, oi_order_id r)) (order_items d)"
    by (simp add: cancel_item_rows_def comp_def)
qed (simp_all add: cancel_item_rows_def)

lemma insert_cancellation_wf:
  assumes "insert_cancellation oid iid reason cancelled_by d = Some d'"
  shows "wf_db d' \<longleftrightarrow> wf_db d"
  by (rule wf_db_cong) (simp_all add: insert_cancellation_Some [OF assms])

lemma updateOrderStatus_wf:
  assumes "wf_db d" and "updateOrderStatus fails d oid st = (res, d', evs)"
  shows "wf_db d'"
  using assms set_order_status_wf [of oid st d]
  by (auto simp: updateOrderStatus_def Let_def split: if_splits)

lemma cancelOrder_wf:
  assumes "wf_db d" and "cancelOrder fails d oid reason cancelled_by = (res, d')"
  shows "wf_db d'"
  using assms set_order_status_wf [of oid "''cancelled''" d]
    insert_cancellation_wf [of oid None reason cancelled_by "set_order_status oid ''cancelled'' d"]
  by (auto simp: cancelOrder_def Let_def split: if_splits option.splits)

lemma cancelOrderItem_wf:
  assumes "wf_db d" and "cancelOrderItem fails d oid iid reason cancelled_by = (res, d')"
  shows "wf_db d'"
  using assms cancel_item_rows_wf [of iid oid d]
    insert_cancellation_wf [of oid "Some iid" reason cancelled_by "cancel_item_rows iid oid d"]
  by (auto simp: cancelOrderItem_def Let_def split: if_splits option.splits)

lemma set_order_status_totals:
  "map order_totals (orders (set_order_status oid st d)) = map order_totals (orders d)"
  by (simp add: set_order_status_def order_totals_def)

lemma updateOrderStatus_totals:
  assumes "updateOrderStatus fails d oid st = (res, d', evs)"
  shows "map order_totals (orders d') = map order_totals (orders d)"
  using assms set_order_status_totals [of oid st d]
  by (auto simp: updateOrderStatus_def Let_def split: if_splits)

lemma cancelOrder_totals:
  assumes "cancelOrder fails d oid reason cancelled_by = (res, d')"
  shows "map order_totals (orders d') = map order_totals (orders d)"
  using cancelOrder_cases [OF assms] set_order_status_totals [of oid "''cancelled''" d]
  by auto

lemma createOrder_totals:
  assumes "createOrder ar fails d req = (res, d', evs)"
  shows "take (length (orders d)) (orders d') = orders d"
  using createOrder_result_db [OF assms] order_committedD [of ar d req d']
  by auto

end
